theory Spec2Isabelle
  imports Main
begin

unbundle bit_operations_syntax

section \<open>Tick arithmetic (apigpio/utils.py)\<close>

text \<open>
  Ticks are Python integers. The daemon delivers them in the range \<open>0 \<le> t < 2^32\<close>, but
  nothing in the code enforces the range, so the model uses \<open>int\<close> and states the range
  where a property needs it.
\<close>

definition tick_diff :: "int \<Rightarrow> int \<Rightarrow> int" where
  "tick_diff t1 t2 =
     (let diff = t2 - t1
      in if diff < 0 then diff + push_bit 32 1 else diff)"

section \<open>The debounce decorator (apigpio/utils.py)\<close>

text \<open>
  Arguments of a callback are Python values: integers (gpio, level, tick) or a reference
  to an object (the receiver, when the decorated callable is a method).
\<close>

datatype pyval = PInt int | PObj nat

datatype exn = IndexError | TypeError | AttributeError

type_synonym kwargs = "(string \<times> pyval) list"

text \<open>One invocation of the wrapped callback \<open>self._fn(*args, **kwargs)\<close>.\<close>

type_synonym fn_call = "pyval list \<times> kwargs"

definition max_tick :: int where
  "max_tick = 0xFFFFFFFF"

text \<open>
  The object built by \<open>_decorated.__init__\<close>. The field \<open>_fn\<close> never changes and is
  represented by the calls made to it; \<open>last\<close> is named \<open>last_tick\<close> here.
\<close>

record decorated =
  last_tick :: int
  is_method :: bool

definition decorated_init :: decorated where
  "decorated_init = \<lparr>last_tick = 0, is_method = False\<rparr>"

text \<open>\<open>args[i]\<close> for a non-negative literal index: IndexError beyond the end of the tuple.\<close>

definition arg_at :: "pyval list \<Rightarrow> nat \<Rightarrow> exn + pyval" where
  "arg_at args i = (if i < length args then Inr (args ! i) else Inl IndexError)"

text \<open>
  The comparison \<open>self.last > tick\<close> and the subtractions need a number; an object
  reference in the tick position raises TypeError.
\<close>

definition tick_arg :: "decorated \<Rightarrow> pyval list \<Rightarrow> exn + int" where
  "tick_arg self args =
     (case (if is_method self then arg_at args 3 else arg_at args 2) of
        Inl e \<Rightarrow> Inl e
      | Inr (PObj r) \<Rightarrow> Inl TypeError
      | Inr (PInt tick) \<Rightarrow> Inr tick)"

text \<open>The elapsed time as \<open>__call__\<close> computes it.\<close>

definition delay_of :: "int \<Rightarrow> int \<Rightarrow> int" where
  "delay_of self_last tick =
     (if self_last > tick then max_tick - self_last + tick else tick - self_last)"

text \<open>
  \<open>debounce(threshold)\<close> multiplies the threshold (milliseconds) by 1000 once, then
  every \<open>__call__\<close> compares against the product. The result of a call is the list of
  invocations of the wrapped callback it made (none or one) and the updated object.
\<close>

definition decorated_call ::
  "int \<Rightarrow> decorated \<Rightarrow> pyval list \<Rightarrow> kwargs \<Rightarrow> exn + (fn_call list \<times> decorated)" where
  "decorated_call threshold self args kw =
     (case tick_arg self args of
        Inl e \<Rightarrow> Inl e
      | Inr tick \<Rightarrow>
          (let delay = delay_of (last_tick self) tick
           in if delay > threshold * 1000
              then Inr ([(args, kw)], self\<lparr>last_tick := tick\<rparr>)
              else Inr ([], self)))"

text \<open>
  \<open>__get__\<close> runs when the decorated callable is looked up as an attribute of an
  instance. It marks the one \<open>_decorated\<close> object stored in the class as a method and
  returns \<open>functools.partial(self, instance)\<close>: a callable that prepends the instance to
  the arguments and calls that same object. The pair is the mutated object and the
  argument the partial application holds.
\<close>

definition decorated_get :: "decorated \<Rightarrow> nat \<Rightarrow> decorated \<times> pyval" where
  "decorated_get self instance = (self\<lparr>is_method := True\<rparr>, PObj instance)"

text \<open>
  \<open>instance.cb(*args, **kwargs)\<close> for a decorated method \<open>cb\<close>: attribute lookup
  (\<open>__get__\<close>), then the call of the partial application. The \<open>_decorated\<close> object is
  created once, when the class body is executed, so every instance goes through the same
  object, which this function takes and returns.
\<close>

definition method_call ::
  "int \<Rightarrow> decorated \<Rightarrow> nat \<Rightarrow> pyval list \<Rightarrow> kwargs \<Rightarrow> exn + (fn_call list \<times> decorated)" where
  "method_call threshold self instance args kw =
     (case decorated_get self instance of
        (self', bound) \<Rightarrow> decorated_call threshold self' (bound # args) kw)"

section \<open>The DHT11 decoder (samples/gpio_dht11.py)\<close>

datatype error_code = ERR_NO_ERROR | ERR_MISSING_DATA | ERR_CRC

text \<open>The numeric values of the class constants of \<open>DHT11Result\<close>.\<close>

fun error_value :: "error_code \<Rightarrow> int" where
  "error_value ERR_NO_ERROR = 0"
| "error_value ERR_MISSING_DATA = 1"
| "error_value ERR_CRC = 2"

record dht11_result =
  error_code :: error_code
  result_temperature :: int
  result_humidity :: int

definition is_valid :: "dht11_result \<Rightarrow> bool" where
  "is_valid r = (error_code r = ERR_NO_ERROR)"

text \<open>
  The attributes of a \<open>DHT11\<close> object that the edge handlers read or write.
  \<open>checksum\<close> is not assigned by \<open>__init__\<close>: it is \<open>None\<close> until a handler assigns it,
  and reading it before that raises AttributeError. \<open>tasks\<close> counts the
  \<open>set_watchdog(gpio, 0)\<close> coroutines handed to \<open>loop.create_task\<close>; the module global
  \<open>loop\<close> is the one the sample's entry point binds. \<open>_bit\<close> is named \<open>bit_idx\<close>.
\<close>

record dht11 =
  temperature :: int
  humidity :: int
  high_tick :: int
  bit_idx :: int
  error :: error_code
  checksum :: "int option"
  tasks :: nat

definition dht11_init :: dht11 where
  "dht11_init =
     \<lparr>temperature = 0, humidity = 0, high_tick = 0, bit_idx = 40,
      error = ERR_NO_ERROR, checksum = None, tasks = 0\<rparr>"

text \<open>
  The level argument of the callback selects the handler. The three apigpio constants
  are the keys of the dispatch dictionary; their numeric values are not part of these
  sources, and a level is identified here with the constant it is equal to.
\<close>

datatype level = FALLING_EDGE | RISING_EDGE | EITHER_EDGE

definition edge_RISE :: "int \<Rightarrow> int \<Rightarrow> dht11 \<Rightarrow> exn + dht11" where
  "edge_RISE tick diff self =
     (let val = (if diff \<ge> 50 then 1 else 0);
          self = (if diff \<ge> 200 then self\<lparr>checksum := Some 256\<rparr> else self)
      in if bit_idx self \<ge> 40 then
           Inr (self\<lparr>bit_idx := 40 + 1\<rparr>)
         else if bit_idx self \<ge> 32 then
           (case checksum self of
              None \<Rightarrow> Inl AttributeError
            | Some c \<Rightarrow>
                (let c' = push_bit 1 c + val;
                     self = self\<lparr>checksum := Some c'\<rparr>
                 in if bit_idx self = 39 then
                      (let self = self\<lparr>tasks := tasks self + 1\<rparr>;
                           total = humidity self + temperature self
                       in if \<not> (total AND 255 = c')
                          then Inr (self\<lparr>error := ERR_CRC\<rparr>)
                          else Inr (self\<lparr>bit_idx := bit_idx self + 1\<rparr>))
                    else Inr (self\<lparr>bit_idx := bit_idx self + 1\<rparr>)))
         else if 16 \<le> bit_idx self \<and> bit_idx self < 24 then
           Inr (self\<lparr>temperature := push_bit 1 (temperature self) + val,
                     error := ERR_NO_ERROR,
                     bit_idx := bit_idx self + 1\<rparr>)
         else if 0 \<le> bit_idx self \<and> bit_idx self < 8 then
           Inr (self\<lparr>humidity := push_bit 1 (humidity self) + val,
                     error := ERR_NO_ERROR,
                     bit_idx := bit_idx self + 1\<rparr>)
         else
           Inr (self\<lparr>bit_idx := bit_idx self + 1\<rparr>))"

definition edge_FALL :: "int \<Rightarrow> int \<Rightarrow> dht11 \<Rightarrow> exn + dht11" where
  "edge_FALL tick diff self =
     (let self = self\<lparr>high_tick := tick\<rparr>
      in if diff \<le> 250000 then Inr self
         else Inr (self\<lparr>bit_idx := - 2, checksum := Some 0,
                        temperature := 0, humidity := 0\<rparr>))"

definition edge_EITHER :: "int \<Rightarrow> int \<Rightarrow> dht11 \<Rightarrow> exn + dht11" where
  "edge_EITHER tick diff self = Inr (self\<lparr>tasks := tasks self + 1\<rparr>)"

definition either_edge_callback :: "int \<Rightarrow> level \<Rightarrow> int \<Rightarrow> dht11 \<Rightarrow> exn + dht11" where
  "either_edge_callback gpio lvl tick self =
     (let handler = (case lvl of
                       FALLING_EDGE \<Rightarrow> edge_FALL
                     | RISING_EDGE \<Rightarrow> edge_RISE
                     | EITHER_EDGE \<Rightarrow> edge_EITHER);
          diff = tick_diff (high_tick self) tick
      in handler tick diff self)"

text \<open>
  \<open>__anext__\<close> sleeps, runs \<open>read\<close> (which only talks to the daemon and sleeps) and
  returns a snapshot of the attributes the handlers have left.
\<close>

definition anext :: "dht11 \<Rightarrow> dht11_result" where
  "anext self =
     \<lparr>error_code = error self,
      result_temperature = temperature self,
      result_humidity = humidity self\<rparr>"

text \<open>
  The daemon calls the registered callback once per notification, in order of arrival.
  A notification is the triple \<open>(gpio, level, tick)\<close>; delivery stops at the first
  exception.
\<close>

fun deliver :: "(int \<times> level \<times> int) list \<Rightarrow> dht11 \<Rightarrow> exn + dht11" where
  "deliver [] self = Inr self"
| "deliver ((gpio, lvl, tick) # evs) self =
     (case either_edge_callback gpio lvl tick self of
        Inl e \<Rightarrow> Inl e
      | Inr self' \<Rightarrow> deliver evs self')"

section \<open>Notification sequences\<close>

text \<open>
  What the callback computes as \<open>diff\<close> for each notification of a sequence, next to the
  level of the notification: the timing the handlers see.
\<close>

fun edge_diffs :: "(int \<times> level \<times> int) list \<Rightarrow> dht11 \<Rightarrow> (level \<times> int) list" where
  "edge_diffs [] self = []"
| "edge_diffs ((gpio, lvl, tick) # evs) self =
     (lvl, tick_diff (high_tick self) tick) #
     (case either_edge_callback gpio lvl tick self of
        Inl e \<Rightarrow> []
      | Inr self' \<Rightarrow> edge_diffs evs self')"

text \<open>
  A sequence stays inside the current frame when no falling edge in it is one that
  \<open>_edge_FALL\<close> takes for the start of a new frame.
\<close>

fun no_reset :: "(int \<times> level \<times> int) list \<Rightarrow> dht11 \<Rightarrow> bool" where
  "no_reset [] self = True"
| "no_reset ((gpio, lvl, tick) # evs) self =
     ((if lvl = FALLING_EDGE then tick_diff (high_tick self) tick \<le> 250000 else True) \<and>
      (case either_edge_callback gpio lvl tick self of
         Inl e \<Rightarrow> True
       | Inr self' \<Rightarrow> no_reset evs self'))"

definition count_rises :: "(int \<times> level \<times> int) list \<Rightarrow> nat" where
  "count_rises evs = length (filter (\<lambda>(gpio, lvl, tick). lvl = RISING_EDGE) evs)"

text \<open>
  A sensor transmission as the handlers read it: each bit is a rising edge 26 (bit 0) or
  70 (bit 1) microseconds after the last falling edge, then the next falling edge, 130
  microseconds after the last one.
\<close>

fun pulses :: "int \<Rightarrow> int \<Rightarrow> bool list \<Rightarrow> (int \<times> level \<times> int) list" where
  "pulses gpio t [] = []"
| "pulses gpio t (b # bs) =
     (gpio, RISING_EDGE, t + (if b then 70 else 26)) #
     (gpio, FALLING_EDGE, t + 130) #
     pulses gpio (t + 130) bs"

text \<open>The eight bits of a byte, most significant first.\<close>

definition byte_bits :: "nat \<Rightarrow> bool list" where
  "byte_bits n = map (\<lambda>i. bit n i) [7, 6, 5, 4, 3, 2, 1, 0]"

text \<open>
  The bits of one transmission: two header bits (positions -2 and -1), then positions 0
  to 39, with the humidity byte at 0 to 7, the temperature byte at 16 to 23, the checksum
  byte at 32 to 39 and zero bytes between them.
\<close>

definition frame_bits :: "nat \<Rightarrow> nat \<Rightarrow> nat \<Rightarrow> bool list" where
  "frame_bits h t c =
     [False, False] @ byte_bits h @ byte_bits 0 @ byte_bits t @ byte_bits 0 @ byte_bits c"

text \<open>
  The notifications of one transmission on a pin: the falling edge at \<open>t0\<close> that starts
  the frame, then the pulses of its bits.
\<close>

definition frame_events :: "int \<Rightarrow> int \<Rightarrow> bool list \<Rightarrow> (int \<times> level \<times> int) list" where
  "frame_events gpio t0 bits = (gpio, FALLING_EDGE, t0) # pulses gpio t0 bits"

text \<open>
  Two conditions on the decoder used in the proofs about long pulses. The first: the
  index is in the checksum window and the checksum accumulator holds a value of 256 or
  more, which no masked sum equals. The second: the completion check has failed and the
  decoder rests at index 39 with \<open>ERR_CRC\<close>.
\<close>

definition forced_bad :: "dht11 \<Rightarrow> bool" where
  "forced_bad self =
     (32 \<le> bit_idx self \<and> bit_idx self \<le> 39 \<and>
      (case checksum self of None \<Rightarrow> False | Some c \<Rightarrow> 256 \<le> c))"

definition crc_stuck :: "dht11 \<Rightarrow> bool" where
  "crc_stuck self = (forced_bad self \<and> bit_idx self = 39 \<and> error self = ERR_CRC)"

text \<open>
  What holds of every decoder reached from a new one: the checksum attribute has been
  assigned before the index is below 40, and the error is never \<open>ERR_MISSING_DATA\<close>.
\<close>

definition decoder_inv :: "dht11 \<Rightarrow> bool" where
  "decoder_inv self =
     ((40 \<le> bit_idx self \<or> checksum self \<noteq> None) \<and> error self \<noteq> ERR_MISSING_DATA)"

section \<open>Properties of the decoder\<close>

subsection \<open>Decoders reached from a new one\<close>

lemma callback_decoder_inv:
  "decoder_inv self \<Longrightarrow>
   \<exists>self'. either_edge_callback gpio lvl tick self = Inr self' \<and> decoder_inv self'"
  by (cases lvl)
     (auto simp: either_edge_callback_def edge_FALL_def edge_RISE_def edge_EITHER_def
        decoder_inv_def Let_def split: option.splits)

lemma deliver_decoder_inv:
  "decoder_inv self \<Longrightarrow> \<exists>self'. deliver evs self = Inr self' \<and> decoder_inv self'"
proof (induction evs arbitrary: self)
  case Nil
  then show ?case by simp
next
  case (Cons ev evs)
  obtain gpio lvl tick where ev: "ev = (gpio, lvl, tick)" by (cases ev)
  from callback_decoder_inv [OF Cons.prems, where gpio = gpio and lvl = lvl and tick = tick]
  obtain self1 where
    s1: "either_edge_callback gpio lvl tick self = Inr self1" "decoder_inv self1"
    by blast
  from Cons.IH [OF s1(2)] s1 ev show ?case by simp
qed

text \<open>
  No sequence of notifications makes a handler of a new decoder raise, and no read of it
  ever returns \<open>ERR_MISSING_DATA\<close>.
\<close>

lemma deliver_init_returns:
  "\<exists>self'. deliver evs dht11_init = Inr self' \<and>
           error_code (anext self') \<noteq> ERR_MISSING_DATA"
  using deliver_decoder_inv [of dht11_init evs]
  by (auto simp: decoder_inv_def dht11_init_def anext_def)

subsection \<open>Rising edges after the frame is complete\<close>

text \<open>
  Claim C6, as the code has it. A rising edge processed while \<open>bit_idx \<ge> 40\<close> leaves
  the decoder in the complete range: the index is clamped to 40 and then incremented by
  the common last statement of the handler, so it is 41 afterwards. Temperature,
  humidity, error, high tick and tasks are unchanged for every \<open>diff\<close>. The checksum is
  unchanged when \<open>diff < 200\<close>; a \<open>diff\<close> of 200 or more overwrites it with 256, because
  the long-pulse test comes before the dispatch on the index.
\<close>

theorem edge_RISE_complete:
  "40 \<le> bit_idx self \<Longrightarrow>
   edge_RISE tick diff self =
     Inr (self\<lparr>checksum := (if 200 \<le> diff then Some 256 else checksum self),
               bit_idx := 41\<rparr>)"
  by (simp add: edge_RISE_def Let_def)

text \<open>The theorem at the freshly constructed decoder, with a short pulse.\<close>

theorem edge_RISE_complete_witness:
  "40 \<le> bit_idx dht11_init \<and>
   edge_RISE 10 10 dht11_init = Inr (dht11_init\<lparr>bit_idx := 41\<rparr>)"
  using edge_RISE_complete [of dht11_init 10 10] by (simp add: dht11_init_def)

text \<open>
  The state a correct transmission of humidity 45 and temperature 25 leaves, then one
  more rising edge 240 microseconds after the last falling edge: the index becomes 41,
  not 40, and the checksum 70 is replaced by 256.
\<close>

theorem edge_RISE_complete_counterexample:
  "40 \<le> bit_idx \<lparr>temperature = 25, humidity = 45, high_tick = 305460, bit_idx = 40,
                  error = ERR_NO_ERROR, checksum = Some 70, tasks = 1\<rparr> \<and>
   edge_RISE 305700 240
     \<lparr>temperature = 25, humidity = 45, high_tick = 305460, bit_idx = 40,
      error = ERR_NO_ERROR, checksum = Some 70, tasks = 1\<rparr> =
   Inr \<lparr>temperature = 25, humidity = 45, high_tick = 305460, bit_idx = 41,
        error = ERR_NO_ERROR, checksum = Some 256, tasks = 1\<rparr>"
  by (simp add: edge_RISE_def)

subsection \<open>The falling edge that starts a frame\<close>

text \<open>
  Claim C3, as the code has it. A falling edge whose \<open>diff\<close> exceeds 250000 sets the
  index to -2 and the three accumulators to 0 and records the tick; it does not touch
  the error field, which is after the reset what it was before. The field is set to
  \<open>ERR_NO_ERROR\<close> by a rising edge processed in the humidity window (index 0 to 7) or
  in the temperature window (index 16 to 23).
\<close>

theorem edge_FALL_reset_keeps_error:
  "(250000 < diff \<longrightarrow>
      edge_FALL tick diff self =
        Inr (self\<lparr>high_tick := tick, bit_idx := - 2, checksum := Some 0,
                  temperature := 0, humidity := 0\<rparr>) \<and>
      (\<exists>self'. edge_FALL tick diff self = Inr self' \<and> error self' = error self)) \<and>
   (0 \<le> bit_idx self \<and> bit_idx self < 8 \<or> 16 \<le> bit_idx self \<and> bit_idx self < 24 \<longrightarrow>
      (\<exists>self'. edge_RISE tick diff self = Inr self' \<and> error self' = ERR_NO_ERROR))"
  by (simp add: edge_FALL_def edge_RISE_def Let_def)

text \<open>
  Both parts at a decoder that holds a checksum error in the humidity window, with a
  \<open>diff\<close> of 300000.
\<close>

theorem edge_FALL_reset_keeps_error_witness:
  "(250000 :: int) < 300000 \<and>
   edge_FALL 605460 300000
     \<lparr>temperature = 25, humidity = 45, high_tick = 305460, bit_idx = 5,
      error = ERR_CRC, checksum = Some 71, tasks = 1\<rparr> =
   Inr \<lparr>temperature = 0, humidity = 0, high_tick = 605460, bit_idx = - 2,
        error = ERR_CRC, checksum = Some 0, tasks = 1\<rparr> \<and>
   (\<exists>self'. edge_RISE 605460 300000
      \<lparr>temperature = 25, humidity = 45, high_tick = 305460, bit_idx = 5,
       error = ERR_CRC, checksum = Some 71, tasks = 1\<rparr> = Inr self' \<and>
      error self' = ERR_NO_ERROR)"
  using edge_FALL_reset_keeps_error
    [of 300000 605460
        "\<lparr>temperature = 25, humidity = 45, high_tick = 305460, bit_idx = 5,
          error = ERR_CRC, checksum = Some 71, tasks = 1\<rparr>"]
  by simp

text \<open>
  A transmission of humidity 45 and temperature 25 with the wrong checksum byte 71
  leaves \<open>ERR_CRC\<close>. The next falling edge, 300000 microseconds after the last one,
  starts a new frame, and the error field is still \<open>ERR_CRC\<close>.
\<close>

theorem edge_FALL_reset_counterexample:
  "deliver (frame_events 4 300000 (frame_bits 45 25 71)) dht11_init =
     Inr \<lparr>temperature = 25, humidity = 45, high_tick = 305460, bit_idx = 39,
          error = ERR_CRC, checksum = Some 71, tasks = 1\<rparr> \<and>
   250000 < tick_diff 305460 605460 \<and>
   edge_FALL 605460 (tick_diff 305460 605460)
     \<lparr>temperature = 25, humidity = 45, high_tick = 305460, bit_idx = 39,
      error = ERR_CRC, checksum = Some 71, tasks = 1\<rparr> =
   Inr \<lparr>temperature = 0, humidity = 0, high_tick = 605460, bit_idx = - 2,
        error = ERR_CRC, checksum = Some 0, tasks = 1\<rparr>"
  by code_simp

subsection \<open>The increment of the bit index\<close>

text \<open>
  Claim C5 at a concrete run. A transmission of humidity 45 and temperature 25 whose
  checksum byte is 71 instead of 70, up to its last rising edge: the decoder is at index
  39 with 35 accumulated. The last rising edge, 70 microseconds after the falling edge,
  makes the checksum 71, the comparison with 70 fails, \<open>ERR_CRC\<close> is recorded and the
  handler returns before its increment: the index is 39 after the edge, not 40.
\<close>

theorem edge_RISE_crc_skips_increment:
  "deliver (butlast (butlast (frame_events 4 300000 (frame_bits 45 25 71)))) dht11_init =
     Inr \<lparr>temperature = 25, humidity = 45, high_tick = 305330, bit_idx = 39,
          error = ERR_NO_ERROR, checksum = Some 35, tasks = 0\<rparr> \<and>
   either_edge_callback 4 RISING_EDGE 305400
     \<lparr>temperature = 25, humidity = 45, high_tick = 305330, bit_idx = 39,
      error = ERR_NO_ERROR, checksum = Some 35, tasks = 0\<rparr> =
     Inr \<lparr>temperature = 25, humidity = 45, high_tick = 305330, bit_idx = 39,
          error = ERR_CRC, checksum = Some 71, tasks = 1\<rparr>"
  by code_simp

subsection \<open>What a read returns for an incomplete frame\<close>

text \<open>
  Claim C1 at a concrete run. A frame starts, the two header bits and the humidity byte
  45 arrive, then two more bits, and the line goes silent until the watchdog
  notification (level \<open>EITHER_EDGE\<close>, tick 0). The decoder is at index 10, no checksum
  error is recorded, and the read returns error code \<open>ERR_NO_ERROR\<close>, not
  \<open>ERR_MISSING_DATA\<close>: the result counts as valid.
\<close>

theorem anext_incomplete_frame_no_error:
  "deliver (frame_events 4 300000 (take 12 (frame_bits 45 25 70)) @ [(4, EITHER_EDGE, 0)])
     dht11_init =
     Inr \<lparr>temperature = 0, humidity = 45, high_tick = 301560, bit_idx = 10,
          error = ERR_NO_ERROR, checksum = Some 0, tasks = 1\<rparr> \<and>
   anext \<lparr>temperature = 0, humidity = 45, high_tick = 301560, bit_idx = 10,
          error = ERR_NO_ERROR, checksum = Some 0, tasks = 1\<rparr> =
     \<lparr>error_code = ERR_NO_ERROR, result_temperature = 0, result_humidity = 45\<rparr> \<and>
   is_valid (anext \<lparr>temperature = 0, humidity = 45, high_tick = 301560, bit_idx = 10,
                    error = ERR_NO_ERROR, checksum = Some 0, tasks = 1\<rparr>)"
  by code_simp

subsection \<open>A complete, correct transmission\<close>

text \<open>
  Claim C2. There is a sequence of notifications, delivered to a freshly constructed
  decoder, that consists of a falling edge starting a frame (its \<open>diff\<close> exceeds 250000)
  followed by the pulses of the two header bits and of bit positions 0 to 39, encoding
  humidity 45 at positions 0 to 7, temperature 25 at 16 to 23 and checksum 70 at 32 to
  39, in which every later falling edge has a \<open>diff\<close> of at most 250000 and every
  rising edge a \<open>diff\<close> below 200, and after which a read returns error code
  \<open>ERR_NO_ERROR\<close>, temperature 25 and humidity 45.
\<close>

theorem correct_frame_decodes:
  "\<exists>gpio t0 evs self.
     evs = frame_events gpio t0 (frame_bits 45 25 70) \<and>
     fst (hd (edge_diffs evs dht11_init)) = FALLING_EDGE \<and>
     250000 < snd (hd (edge_diffs evs dht11_init)) \<and>
     list_all (\<lambda>(lvl, d). case lvl of
                   FALLING_EDGE \<Rightarrow> d \<le> 250000
                 | RISING_EDGE \<Rightarrow> d < 200
                 | EITHER_EDGE \<Rightarrow> False)
       (tl (edge_diffs evs dht11_init)) \<and>
     count_rises evs = 42 \<and>
     deliver evs dht11_init = Inr self \<and>
     anext self =
       \<lparr>error_code = ERR_NO_ERROR, result_temperature = 25, result_humidity = 45\<rparr>"
proof -
  let ?evs = "frame_events 4 300000 (frame_bits 45 25 70)"
  let ?self = "\<lparr>temperature = 25, humidity = 45, high_tick = 305460, bit_idx = 40,
                 error = ERR_NO_ERROR, checksum = Some 70, tasks = 1\<rparr>"
  have start: "fst (hd (edge_diffs ?evs dht11_init)) = FALLING_EDGE"
    by code_simp
  have long: "250000 < snd (hd (edge_diffs ?evs dht11_init))"
    by code_simp
  have timing:
    "list_all (\<lambda>(lvl, d). case lvl of
                   FALLING_EDGE \<Rightarrow> d \<le> 250000
                 | RISING_EDGE \<Rightarrow> d < 200
                 | EITHER_EDGE \<Rightarrow> False)
       (tl (edge_diffs ?evs dht11_init))"
    by code_simp
  have rises: "count_rises ?evs = 42"
    by code_simp
  have run: "deliver ?evs dht11_init = Inr ?self"
    by code_simp
  have frame: "anext ?self =
       \<lparr>error_code = ERR_NO_ERROR, result_temperature = 25, result_humidity = 45\<rparr>"
    by (simp add: anext_def)
  from start long timing rises run frame show ?thesis by blast
qed

subsection \<open>A long pulse in the checksum window\<close>

lemma and_255_le: "(x::int) AND 255 \<le> 255"
  by (rule AND_upper2) simp

lemma edge_RISE_forced_bad:
  assumes "forced_bad self"
  shows "\<exists>self'. edge_RISE tick diff self = Inr self' \<and> forced_bad self' \<and>
           (if bit_idx self = 39 then bit_idx self' = 39 \<and> error self' = ERR_CRC
            else bit_idx self' = bit_idx self + 1)"
proof -
  from assms obtain c where c: "checksum self = Some c" "256 \<le> c"
    and b: "32 \<le> bit_idx self" "bit_idx self \<le> 39"
    by (auto simp: forced_bad_def split: option.splits)
  have le: "(humidity self + temperature self) AND 255 \<le> 255"
    by (rule and_255_le)
  show ?thesis
    using b c by (auto simp: edge_RISE_def forced_bad_def Let_def) (use le in linarith)+
qed

lemma edge_RISE_long_pulse:
  assumes "32 \<le> bit_idx self" "bit_idx self \<le> 39" "200 \<le> diff"
  shows "\<exists>self'. edge_RISE tick diff self = Inr self' \<and> forced_bad self' \<and>
           (if bit_idx self = 39 then bit_idx self' = 39 \<and> error self' = ERR_CRC
            else bit_idx self' = bit_idx self + 1)"
proof -
  have ne: "(humidity self + temperature self) AND 255 \<noteq> 513"
    using and_255_le [of "humidity self + temperature self"] by linarith
  show ?thesis using assms ne
    by (auto simp: edge_RISE_def forced_bad_def Let_def)
qed

lemma callback_forced_bad:
  assumes "forced_bad self"
    and "lvl = FALLING_EDGE \<Longrightarrow> tick_diff (high_tick self) tick \<le> 250000"
  shows "\<exists>self'. either_edge_callback gpio lvl tick self = Inr self' \<and> forced_bad self' \<and>
           (if lvl = RISING_EDGE
            then (if bit_idx self = 39 then bit_idx self' = 39 \<and> error self' = ERR_CRC
                  else bit_idx self' = bit_idx self + 1)
            else bit_idx self' = bit_idx self \<and> error self' = error self)"
proof (cases lvl)
  case FALLING_EDGE
  with assms show ?thesis
    by (simp add: either_edge_callback_def edge_FALL_def forced_bad_def Let_def)
next
  case RISING_EDGE
  with edge_RISE_forced_bad [OF assms(1), of tick "tick_diff (high_tick self) tick"]
  show ?thesis by (simp add: either_edge_callback_def Let_def)
next
  case EITHER_EDGE
  with assms show ?thesis
    by (simp add: either_edge_callback_def edge_EITHER_def forced_bad_def Let_def)
qed

lemma crc_stuck_stays:
  "crc_stuck self \<Longrightarrow> no_reset evs self \<Longrightarrow>
   \<exists>self'. deliver evs self = Inr self' \<and> crc_stuck self'"
proof (induction evs arbitrary: self)
  case Nil
  then show ?case by simp
next
  case (Cons ev evs)
  obtain gpio lvl tick where ev: "ev = (gpio, lvl, tick)" by (cases ev)
  from Cons.prems have fb: "forced_bad self" and b: "bit_idx self = 39" and e: "error self = ERR_CRC"
    by (simp_all add: crc_stuck_def)
  from Cons.prems(2) ev have nr: "lvl = FALLING_EDGE \<Longrightarrow> tick_diff (high_tick self) tick \<le> 250000"
    by simp
  from callback_forced_bad [OF fb nr, where gpio = gpio] obtain self1 where
    s1: "either_edge_callback gpio lvl tick self = Inr self1" "forced_bad self1"
    and r: "if lvl = RISING_EDGE
            then (if bit_idx self = 39 then bit_idx self1 = 39 \<and> error self1 = ERR_CRC
                  else bit_idx self1 = bit_idx self + 1)
            else bit_idx self1 = bit_idx self \<and> error self1 = error self"
    by blast
  from r b e s1 have st: "crc_stuck self1"
    by (simp add: crc_stuck_def split: if_splits)
  from Cons.prems(2) ev s1 have "no_reset evs self1" by simp
  from Cons.IH [OF st this] s1 ev show ?case by simp
qed

lemma forced_bad_reaches_check:
  "forced_bad self \<Longrightarrow> no_reset evs self \<Longrightarrow> 40 - bit_idx self \<le> int (count_rises evs) \<Longrightarrow>
   \<exists>self'. deliver evs self = Inr self' \<and> crc_stuck self'"
proof (induction evs arbitrary: self)
  case Nil
  then show ?case by (simp add: count_rises_def forced_bad_def)
next
  case (Cons ev evs)
  obtain gpio lvl tick where ev: "ev = (gpio, lvl, tick)" by (cases ev)
  from Cons.prems(2) ev have nr: "lvl = FALLING_EDGE \<Longrightarrow> tick_diff (high_tick self) tick \<le> 250000"
    by simp
  from callback_forced_bad [OF Cons.prems(1) nr, where gpio = gpio] obtain self1 where
    s1: "either_edge_callback gpio lvl tick self = Inr self1" "forced_bad self1"
    and r: "if lvl = RISING_EDGE
            then (if bit_idx self = 39 then bit_idx self1 = 39 \<and> error self1 = ERR_CRC
                  else bit_idx self1 = bit_idx self + 1)
            else bit_idx self1 = bit_idx self \<and> error self1 = error self"
    by blast
  from Cons.prems(2) ev s1 have nr1: "no_reset evs self1" by simp
  show ?case
  proof (cases "lvl = RISING_EDGE \<and> bit_idx self = 39")
    case True
    with r s1 have "crc_stuck self1" by (simp add: crc_stuck_def)
    from crc_stuck_stays [OF this nr1] s1 ev show ?thesis by simp
  next
    case False
    with r Cons.prems(3) ev have "40 - bit_idx self1 \<le> int (count_rises evs)"
      by (auto simp: count_rises_def split: if_splits)
    from Cons.IH [OF s1(2) nr1 this] s1 ev show ?thesis by simp
  qed
qed

text \<open>
  Claim C7. Let the decoder be in the checksum window (index 32 to 39), whatever its
  accumulators hold, and let a rising edge arrive whose \<open>diff\<close> is 200 or more. Let any
  notifications follow that stay inside the frame (no falling edge among them starts a
  new one), with any timing, and let the rising edges be enough for the completion check
  at index 39 to run. Then every notification is processed without an exception, the
  comparison at index 39 fails, and the decoder ends with \<open>ERR_CRC\<close> recorded (at index
  39, where the failed check leaves it).
\<close>

theorem long_pulse_forces_crc:
  assumes win: "32 \<le> bit_idx self" "bit_idx self \<le> 39"
    and long: "200 \<le> tick_diff (high_tick self) tick"
    and frame: "no_reset ((gpio, RISING_EDGE, tick) # evs) self"
    and reach: "40 - bit_idx self \<le> int (count_rises ((gpio, RISING_EDGE, tick) # evs))"
  shows "\<exists>self'. deliver ((gpio, RISING_EDGE, tick) # evs) self = Inr self' \<and>
           bit_idx self' = 39 \<and> error self' = ERR_CRC"
proof -
  from edge_RISE_long_pulse [OF win long, of tick] obtain self1 where
    s1: "either_edge_callback gpio RISING_EDGE tick self = Inr self1" "forced_bad self1"
    and r: "if bit_idx self = 39 then bit_idx self1 = 39 \<and> error self1 = ERR_CRC
            else bit_idx self1 = bit_idx self + 1"
    by (auto simp: either_edge_callback_def Let_def)
  from frame s1 have nr1: "no_reset evs self1" by simp
  have "\<exists>self'. deliver evs self1 = Inr self' \<and> crc_stuck self'"
  proof (cases "bit_idx self = 39")
    case True
    with r s1 have "crc_stuck self1" by (simp add: crc_stuck_def)
    from crc_stuck_stays [OF this nr1] show ?thesis .
  next
    case False
    with r reach have "40 - bit_idx self1 \<le> int (count_rises evs)"
      by (simp add: count_rises_def)
    from forced_bad_reaches_check [OF s1(2) nr1 this] show ?thesis .
  qed
  with s1 show ?thesis by (auto simp: crc_stuck_def)
qed


text \<open>
  The decoder two bits before the end of a correct transmission of humidity 45,
  temperature 25 and checksum 70 (17 accumulated, the bits 1 and 0 still to come). The
  bit 1 arrives as a pulse of 250 microseconds, the bit 0 as one of 26: the bit values
  are those of the matching checksum, and the frame ends with \<open>ERR_CRC\<close>.
\<close>

theorem long_pulse_forces_crc_witness:
  "32 \<le> bit_idx \<lparr>temperature = 25, humidity = 45, high_tick = 305200, bit_idx = 38,
                  error = ERR_NO_ERROR, checksum = Some 17, tasks = 0\<rparr> \<and>
   bit_idx \<lparr>temperature = 25, humidity = 45, high_tick = 305200, bit_idx = 38,
            error = ERR_NO_ERROR, checksum = Some 17, tasks = 0\<rparr> \<le> 39 \<and>
   200 \<le> tick_diff
            (high_tick \<lparr>temperature = 25, humidity = 45, high_tick = 305200, bit_idx = 38,
                        error = ERR_NO_ERROR, checksum = Some 17, tasks = 0\<rparr>) 305450 \<and>
   no_reset [(4, RISING_EDGE, 305450), (4, FALLING_EDGE, 305580), (4, RISING_EDGE, 305606)]
     \<lparr>temperature = 25, humidity = 45, high_tick = 305200, bit_idx = 38,
      error = ERR_NO_ERROR, checksum = Some 17, tasks = 0\<rparr> \<and>
   40 - bit_idx \<lparr>temperature = 25, humidity = 45, high_tick = 305200, bit_idx = 38,
                 error = ERR_NO_ERROR, checksum = Some 17, tasks = 0\<rparr>
     \<le> int (count_rises
              [(4, RISING_EDGE, 305450), (4, FALLING_EDGE, 305580), (4, RISING_EDGE, 305606)]) \<and>
   (\<exists>self'.
      deliver [(4, RISING_EDGE, 305450), (4, FALLING_EDGE, 305580), (4, RISING_EDGE, 305606)]
        \<lparr>temperature = 25, humidity = 45, high_tick = 305200, bit_idx = 38,
         error = ERR_NO_ERROR, checksum = Some 17, tasks = 0\<rparr> = Inr self' \<and>
      bit_idx self' = 39 \<and> error self' = ERR_CRC) \<and>
   deliver [(4, RISING_EDGE, 305450), (4, FALLING_EDGE, 305580), (4, RISING_EDGE, 305606)]
     \<lparr>temperature = 25, humidity = 45, high_tick = 305200, bit_idx = 38,
      error = ERR_NO_ERROR, checksum = Some 17, tasks = 0\<rparr> =
     Inr \<lparr>temperature = 25, humidity = 45, high_tick = 305580, bit_idx = 39,
          error = ERR_CRC, checksum = Some 1026, tasks = 1\<rparr>"
proof -
  let ?self = "\<lparr>temperature = 25, humidity = 45, high_tick = 305200, bit_idx = 38,
                 error = ERR_NO_ERROR, checksum = Some 17, tasks = 0\<rparr>"
  let ?evs = "[(4, FALLING_EDGE, 305580), (4, RISING_EDGE, 305606)]"
  have h1: "32 \<le> bit_idx ?self" by simp
  have h2: "bit_idx ?self \<le> 39" by simp
  have h3: "200 \<le> tick_diff (high_tick ?self) 305450" by code_simp
  have h4: "no_reset ((4, RISING_EDGE, 305450) # ?evs) ?self" by code_simp
  have h5: "40 - bit_idx ?self \<le> int (count_rises ((4, RISING_EDGE, 305450) # ?evs))"
    by code_simp
  have h6: "deliver ((4, RISING_EDGE, 305450) # ?evs) ?self =
     Inr \<lparr>temperature = 25, humidity = 45, high_tick = 305580, bit_idx = 39,
          error = ERR_CRC, checksum = Some 1026, tasks = 1\<rparr>"
    by code_simp
  from long_pulse_forces_crc [OF h1 h2 h3 h4 h5] h1 h2 h3 h4 h5 h6 show ?thesis by blast
qed

section \<open>Properties of the debounce decorator\<close>

subsection \<open>The elapsed time across the wrap of the tick\<close>

text \<open>
  Claim C8 at concrete ticks. With 4294967272 stored and 12 incoming, the decorator
  computes 35 where \<open>tick_diff\<close> gives 36: it adds \<open>0xFFFFFFFF\<close> where \<open>tick_diff\<close>
  adds \<open>1 << 32\<close>. With the default threshold of 100 ms, a call at tick 4294967295 on a
  new decorator is passed on and stored; the next call at tick 100000 comes 100001
  microseconds later, which exceeds the threshold of 100000, and is filtered out.
\<close>

theorem debounce_wrap_delay_one_short:
  "delay_of 4294967272 12 = 35 \<and>
   tick_diff 4294967272 12 = 36 \<and>
   decorated_call 100 decorated_init [PInt 4, PInt 1, PInt 4294967295] [] =
     Inr ([([PInt 4, PInt 1, PInt 4294967295], [])],
          \<lparr>last_tick = 4294967295, is_method = False\<rparr>) \<and>
   tick_diff 4294967295 100000 = 100001 \<and>
   delay_of 4294967295 100000 = 100000 \<and>
   decorated_call 100 \<lparr>last_tick = 4294967295, is_method = False\<rparr>
       [PInt 4, PInt 0, PInt 100000] [] =
     Inr ([], \<lparr>last_tick = 4294967295, is_method = False\<rparr>)"
  by code_simp

subsection \<open>The threshold\<close>

text \<open>
  Claim C9. For every state of the decorator and every call whose tick is not below the
  stored one (no wrap), the computed elapsed time is the difference of the two ticks,
  and the call is passed to the wrapped callback, with the stored tick replaced by the
  incoming one, exactly when the elapsed time is strictly greater than the threshold in
  microseconds; otherwise the callback is not called and the decorator is unchanged.
  In particular, with a positive threshold of \<open>T\<close> microseconds, after a call at tick
  \<open>t0\<close> that was passed on, a call at \<open>t0 + T - 1\<close> is filtered out and leaves the
  decorator as it is, and a call at \<open>t0 + T + 1\<close> is passed on and stored.
\<close>

theorem debounce_threshold_strict:
  "(tick_arg self args = Inr tick \<and> last_tick self \<le> tick \<longrightarrow>
      delay_of (last_tick self) tick = tick - last_tick self \<and>
      decorated_call threshold self args kw =
        (if delay_of (last_tick self) tick > threshold * 1000
         then Inr ([(args, kw)], self\<lparr>last_tick := tick\<rparr>)
         else Inr ([], self))) \<and>
   (0 < threshold \<and>
    tick_arg self0 args0 = Inr t0 \<and>
    decorated_call threshold self0 args0 kw0 = Inr ([(args0, kw0)], self1) \<and>
    tick_arg self1 args1 = Inr (t0 + threshold * 1000 - 1) \<and>
    tick_arg self1 args2 = Inr (t0 + threshold * 1000 + 1) \<longrightarrow>
      last_tick self1 = t0 \<and>
      decorated_call threshold self1 args1 kw1 = Inr ([], self1) \<and>
      decorated_call threshold self1 args2 kw2 =
        Inr ([(args2, kw2)], self1\<lparr>last_tick := t0 + threshold * 1000 + 1\<rparr>))"
  by (auto simp add: decorated_call_def delay_of_def Let_def split: if_splits)

text \<open>
  The default threshold of 100 ms: a first call at tick 200000 is passed on, a call at
  299999 is filtered out and a call at 300001 is passed on.
\<close>

theorem debounce_threshold_strict_witness:
  "tick_arg decorated_init [PInt 4, PInt 1, PInt 200000] = Inr 200000 \<and>
   last_tick decorated_init \<le> 200000 \<and>
   delay_of (last_tick decorated_init) 200000 = 200000 \<and>
   (0::int) < 100 \<and>
   decorated_call 100 decorated_init [PInt 4, PInt 1, PInt 200000] [] =
     Inr ([([PInt 4, PInt 1, PInt 200000], [])], \<lparr>last_tick = 200000, is_method = False\<rparr>) \<and>
   tick_arg \<lparr>last_tick = 200000, is_method = False\<rparr> [PInt 4, PInt 0, PInt 299999] =
     Inr (200000 + 100 * 1000 - 1) \<and>
   tick_arg \<lparr>last_tick = 200000, is_method = False\<rparr> [PInt 4, PInt 1, PInt 300001] =
     Inr (200000 + 100 * 1000 + 1) \<and>
   decorated_call 100 \<lparr>last_tick = 200000, is_method = False\<rparr>
       [PInt 4, PInt 0, PInt 299999] [] =
     Inr ([], \<lparr>last_tick = 200000, is_method = False\<rparr>) \<and>
   decorated_call 100 \<lparr>last_tick = 200000, is_method = False\<rparr>
       [PInt 4, PInt 1, PInt 300001] [] =
     Inr ([([PInt 4, PInt 1, PInt 300001], [])], \<lparr>last_tick = 300001, is_method = False\<rparr>)"
proof -
  let ?a0 = "[PInt 4, PInt 1, PInt 200000]"
  let ?a1 = "[PInt 4, PInt 0, PInt 299999]"
  let ?a2 = "[PInt 4, PInt 1, PInt 300001]"
  let ?s1 = "\<lparr>last_tick = 200000, is_method = False\<rparr>"
  have h1: "tick_arg decorated_init ?a0 = Inr 200000" by code_simp
  have h2: "last_tick decorated_init \<le> 200000" by code_simp
  have h3: "(0::int) < 100" by simp
  have h4: "decorated_call 100 decorated_init ?a0 [] = Inr ([(?a0, [])], ?s1)" by code_simp
  have h5: "tick_arg ?s1 ?a1 = Inr (200000 + 100 * 1000 - 1)" by code_simp
  have h6: "tick_arg ?s1 ?a2 = Inr (200000 + 100 * 1000 + 1)" by code_simp
  from debounce_threshold_strict
         [of decorated_init ?a0 200000 100 "[]" decorated_init ?a0 200000 "[]" ?s1 ?a1 ?a2
             "[]" "[]"]
    h1 h2 h3 h4 h5 h6
  show ?thesis by (simp add: decorated_init_def)
qed

subsection \<open>The first call\<close>

text \<open>
  Claim C10. A newly constructed decorator stores the tick 0. The first call it receives,
  as a function or (after the attribute lookup) as a method of an instance, is filtered
  out, with the wrapped callback not called, whenever its tick is between 0 and the
  threshold in microseconds, the threshold included.
\<close>

theorem debounce_first_call_filtered:
  "last_tick decorated_init = 0 \<and>
   (tick_arg decorated_init args = Inr tick \<and> 0 \<le> tick \<and> tick \<le> threshold * 1000 \<longrightarrow>
      decorated_call threshold decorated_init args kw = Inr ([], decorated_init)) \<and>
   (tick_arg (fst (decorated_get decorated_init instance)) (PObj instance # args) = Inr tick \<and>
    0 \<le> tick \<and> tick \<le> threshold * 1000 \<longrightarrow>
      method_call threshold decorated_init instance args kw =
        Inr ([], fst (decorated_get decorated_init instance)))"
  by (simp add: decorated_call_def method_call_def decorated_get_def decorated_init_def
        delay_of_def)

text \<open>The default threshold and a first call at tick 100000, the threshold itself.\<close>

theorem debounce_first_call_filtered_witness:
  "last_tick decorated_init = 0 \<and>
   tick_arg decorated_init [PInt 4, PInt 1, PInt 100000] = Inr 100000 \<and>
   (0::int) \<le> 100000 \<and> (100000::int) \<le> 100 * 1000 \<and>
   decorated_call 100 decorated_init [PInt 4, PInt 1, PInt 100000] [] =
     Inr ([], decorated_init) \<and>
   tick_arg (fst (decorated_get decorated_init 7)) (PObj 7 # [PInt 4, PInt 1, PInt 100000]) =
     Inr 100000 \<and>
   method_call 100 decorated_init 7 [PInt 4, PInt 1, PInt 100000] [] =
     Inr ([], fst (decorated_get decorated_init 7))"
  using debounce_first_call_filtered [of "[PInt 4, PInt 1, PInt 100000]" 100000 100 "[]" 7]
  by (simp add: tick_arg_def arg_at_def decorated_init_def decorated_get_def)

subsection \<open>A decorated method and the instances of its class\<close>

text \<open>
  Claim C4, as the code has it. All instances of a class share the one debounce state of
  a decorated method: after a call through one instance that was passed on, the stored
  tick is the tick of that call, and it decides the next call through every instance,
  the other ones included: a call with a later tick is passed on exactly when it comes
  more than the threshold after the first instance's call.
\<close>

theorem debounce_state_shared:
  assumes accepted: "method_call threshold self a args kw = Inr ([call], self')"
    and tick: "tick_arg (fst (decorated_get self a)) (PObj a # args) = Inr tick"
    and other: "tick_arg self' (PObj b # args') = Inr tick'"
    and later: "tick \<le> tick'"
  shows "last_tick self' = tick \<and>
         method_call threshold self' b args' kw' =
           (if tick' - tick > threshold * 1000
            then Inr ([(PObj b # args', kw')], self'\<lparr>last_tick := tick'\<rparr>)
            else Inr ([], self'))"
proof -
  from accepted tick have s': "self' = self\<lparr>last_tick := tick, is_method := True\<rparr>"
    by (auto simp: method_call_def decorated_get_def decorated_call_def Let_def
          split: if_splits)
  with other later show ?thesis
    by (simp add: method_call_def decorated_get_def decorated_call_def delay_of_def Let_def)
qed

text \<open>
  Instance 1 receives a call at tick 200000, which is passed on; the call through
  instance 2 at tick 250000 is then filtered out.
\<close>

theorem debounce_state_shared_witness:
  "method_call 100 decorated_init 1 [PInt 4, PInt 1, PInt 200000] [] =
     Inr ([([PObj 1, PInt 4, PInt 1, PInt 200000], [])],
          \<lparr>last_tick = 200000, is_method = True\<rparr>) \<and>
   tick_arg (fst (decorated_get decorated_init 1)) (PObj 1 # [PInt 4, PInt 1, PInt 200000]) =
     Inr 200000 \<and>
   tick_arg \<lparr>last_tick = 200000, is_method = True\<rparr> (PObj 2 # [PInt 17, PInt 1, PInt 250000]) =
     Inr 250000 \<and>
   (200000::int) \<le> 250000 \<and>
   last_tick \<lparr>last_tick = 200000, is_method = True\<rparr> = 200000 \<and>
   method_call 100 \<lparr>last_tick = 200000, is_method = True\<rparr> 2
       [PInt 17, PInt 1, PInt 250000] [] =
     Inr ([], \<lparr>last_tick = 200000, is_method = True\<rparr>)"
proof -
  have h1: "method_call 100 decorated_init 1 [PInt 4, PInt 1, PInt 200000] [] =
     Inr ([([PObj 1, PInt 4, PInt 1, PInt 200000], [])],
          \<lparr>last_tick = 200000, is_method = True\<rparr>)"
    by code_simp
  have h2: "tick_arg (fst (decorated_get decorated_init 1))
              (PObj 1 # [PInt 4, PInt 1, PInt 200000]) = Inr 200000"
    by code_simp
  have h3: "tick_arg \<lparr>last_tick = 200000, is_method = True\<rparr>
              (PObj 2 # [PInt 17, PInt 1, PInt 250000]) = Inr 250000"
    by code_simp
  have h4: "(200000::int) \<le> 250000" by simp
  from debounce_state_shared [OF h1 h2 h3 h4, of "[]"] h1 h2 h3 show ?thesis by simp
qed

text \<open>
  The stored tick is 0 before the call through instance 1 and 200000 after it. The call
  through instance 2 at tick 250000, its first, is filtered out after the call through
  instance 1, and would have been passed on without it.
\<close>

theorem debounce_state_shared_counterexample:
  "last_tick decorated_init = 0 \<and>
   method_call 100 decorated_init 1 [PInt 4, PInt 1, PInt 200000] [] =
     Inr ([([PObj 1, PInt 4, PInt 1, PInt 200000], [])],
          \<lparr>last_tick = 200000, is_method = True\<rparr>) \<and>
   method_call 100 \<lparr>last_tick = 200000, is_method = True\<rparr> 2
       [PInt 17, PInt 1, PInt 250000] [] =
     Inr ([], \<lparr>last_tick = 200000, is_method = True\<rparr>) \<and>
   method_call 100 decorated_init 2 [PInt 17, PInt 1, PInt 250000] [] =
     Inr ([([PObj 2, PInt 17, PInt 1, PInt 250000], [])],
          \<lparr>last_tick = 250000, is_method = True\<rparr>)"
  by code_simp

end
